theory Spec2Isabelle
  imports Main
begin

section \<open>JavaScript values seen by the handler\<close>

text \<open>
  The Worker handles one HTTP request: \<^verbatim>\<open>fetch(request, env)\<close>. All the data it
  touches is JSON: the parsed request body, the result of the inference call and the
  error payload of the HTTPS endpoint. A JavaScript string is modelled as a \<open>string\<close>.
  A number is carried by the decimal text that JavaScript prints for it (\<open>''512''\<close>,
  \<open>''1.5''\<close>, \<open>''0''\<close> for both zeros): the handler only tests a number for truthiness and
  renders it in a template literal, and both are functions of that text.
  An object is the list of its own properties, each key once.
\<close>

datatype json =
    JNull
  | JBool bool
  | JNum string
  | JStr string
  | JArr "json list"
  | JObj "(string \<times> json) list"

text \<open>
  What a \<^verbatim>\<open>throw\<close> carries: an \<^verbatim>\<open>Error\<close> instance (its name and its message), or any
  other value (\<^verbatim>\<open>throw "text"\<close>). The messages of the errors raised by the engine itself
  are written as V8 words them.
\<close>

datatype thrown =
    Error_object string string
  | Thrown_value json

definition TypeError :: "string \<Rightarrow> thrown" where
  "TypeError msg = Error_object ''TypeError'' msg"

definition RangeError :: "string \<Rightarrow> thrown" where
  "RangeError msg = Error_object ''RangeError'' msg"

definition InvalidCharacterError :: "string \<Rightarrow> thrown" where
  "InvalidCharacterError msg = Error_object ''InvalidCharacterError'' msg"

text \<open>Truthiness (\<^verbatim>\<open>!x\<close>, \<^verbatim>\<open>x || y\<close>); \<open>None\<close> is \<^verbatim>\<open>undefined\<close>.\<close>

fun truthy :: "json option \<Rightarrow> bool" where
  "truthy None = False"
| "truthy (Some JNull) = False"
| "truthy (Some (JBool b)) = b"
| "truthy (Some (JNum t)) = (t \<noteq> ''0'' \<and> t \<noteq> ''NaN'')"
| "truthy (Some (JStr s)) = (s \<noteq> [])"
| "truthy (Some (JArr xs)) = True"
| "truthy (Some (JObj kvs)) = True"

text \<open>
  Reading a property \<^verbatim>\<open>v.k\<close>, for the keys the handler reads (\<^verbatim>\<open>image\<close>,
  \<^verbatim>\<open>prompt\<close>, \<^verbatim>\<open>errors\<close>, \<^verbatim>\<open>message\<close>), none of which a built-in prototype
  defines: on \<^verbatim>\<open>null\<close> a TypeError, on an object its own property, on any other value
  \<^verbatim>\<open>undefined\<close>.
\<close>

fun get_prop :: "json \<Rightarrow> string \<Rightarrow> thrown + json option" where
  "get_prop JNull k =
     Inl (TypeError (''Cannot read properties of null (reading '' @ [CHR 0x27] @ k @ [CHR 0x27] @ '')''))"
| "get_prop (JObj kvs) k = Inr (map_of kvs k)"
| "get_prop v k = Inr None"

text \<open>Reading \<^verbatim>\<open>v[0]\<close>: the first element of an array, the first character of a string,
  the property \<^verbatim>\<open>"0"\<close> of an object.\<close>

fun get_index0 :: "json \<Rightarrow> thrown + json option" where
  "get_index0 JNull = Inl (TypeError ''Cannot read properties of null (reading '0')'')"
| "get_index0 (JArr []) = Inr None"
| "get_index0 (JArr (x # xs)) = Inr (Some x)"
| "get_index0 (JStr []) = Inr None"
| "get_index0 (JStr (c # cs)) = Inr (Some (JStr [c]))"
| "get_index0 (JObj kvs) = Inr (map_of kvs ''0'')"
| "get_index0 v = Inr None"

text \<open>Optional chaining \<^verbatim>\<open>a?.b\<close>: \<^verbatim>\<open>undefined\<close> when \<^verbatim>\<open>a\<close> is \<^verbatim>\<open>undefined\<close> or
  \<^verbatim>\<open>null\<close>, the plain access otherwise.\<close>

fun opt_chain :: "json option \<Rightarrow> (json \<Rightarrow> thrown + json option) \<Rightarrow> thrown + json option" where
  "opt_chain None f = Inr None"
| "opt_chain (Some JNull) f = Inr None"
| "opt_chain (Some v) f = f v"

text \<open>\<^verbatim>\<open>a || b\<close>.\<close>

definition or_else :: "json option \<Rightarrow> json option \<Rightarrow> json option" where
  "or_else a b = (if truthy a then a else b)"

text \<open>
  The conversion to a string that a template literal applies. An array prints its elements
  separated by commas, \<^verbatim>\<open>null\<close> elements as nothing; a plain object prints as
  \<^verbatim>\<open>[object Object]\<close>, unless it has an own property \<^verbatim>\<open>toString\<close>, which (being JSON)
  is not callable, so that the conversion throws.
\<close>

fun join :: "string \<Rightarrow> string list \<Rightarrow> string" where
  "join sep [] = []"
| "join sep [x] = x"
| "join sep (x # y # ys) = x @ sep @ join sep (y # ys)"

fun ToString :: "json \<Rightarrow> thrown + string"
  and ToString_elements :: "json list \<Rightarrow> thrown + string list" where
  "ToString JNull = Inr ''null''"
| "ToString (JBool b) = Inr (if b then ''true'' else ''false'')"
| "ToString (JNum t) = Inr t"
| "ToString (JStr s) = Inr s"
| "ToString (JArr xs) =
     (case ToString_elements xs of Inl e \<Rightarrow> Inl e | Inr ss \<Rightarrow> Inr (join '','' ss))"
| "ToString (JObj kvs) =
     (case map_of kvs ''toString'' of
        None \<Rightarrow> Inr ''[object Object]''
      | Some f \<Rightarrow> Inl (TypeError ''Cannot convert object to primitive value''))"
| "ToString_elements [] = Inr []"
| "ToString_elements (x # xs) =
     (case (if x = JNull then Inr [] else ToString x) of
        Inl e \<Rightarrow> Inl e
      | Inr s \<Rightarrow> (case ToString_elements xs of Inl e \<Rightarrow> Inl e | Inr ss \<Rightarrow> Inr (s # ss)))"

text \<open>\<^verbatim>\<open>undefined\<close> prints as \<^verbatim>\<open>undefined\<close>.\<close>

definition template_text :: "json option \<Rightarrow> thrown + string" where
  "template_text v = (case v of None \<Rightarrow> Inr ''undefined'' | Some j \<Rightarrow> ToString j)"

section \<open>String operations\<close>

text \<open>\<^verbatim>\<open>s.startsWith(p)\<close>, \<^verbatim>\<open>s.includes(p)\<close> and \<^verbatim>\<open>s.split(sep)\<close> for a one-character
  separator.\<close>

fun startsWith :: "string \<Rightarrow> string \<Rightarrow> bool" where
  "startsWith s [] = True"
| "startsWith [] (p # ps) = False"
| "startsWith (c # cs) (p # ps) = (c = p \<and> startsWith cs ps)"

fun includes_str :: "string \<Rightarrow> string \<Rightarrow> bool" where
  "includes_str [] p = (p = [])"
| "includes_str (c # cs) p = (startsWith (c # cs) p \<or> includes_str cs p)"

fun split_str :: "string \<Rightarrow> char \<Rightarrow> string list" where
  "split_str [] sep = [[]]"
| "split_str (c # cs) sep =
     (if c = sep then [] # split_str cs sep
      else (case split_str cs sep of [] \<Rightarrow> [[c]] | w # ws \<Rightarrow> (c # w) # ws))"

text \<open>\<^verbatim>\<open>xs[1]\<close>, \<^verbatim>\<open>undefined\<close> past the end.\<close>

fun index1 :: "'a list \<Rightarrow> 'a option" where
  "index1 (a # b # rest) = Some b"
| "index1 xs = None"

text \<open>\<^verbatim>\<open>image.split(',')[1]\<close>, which the binding variant calls \<^verbatim>\<open>base64Data\<close>.\<close>

definition base64Data :: "string \<Rightarrow> string option" where
  "base64Data img = index1 (split_str img CHR '','')"

text \<open>
  Two readings of "the base64 part" of a data URI, in the words of the specification:
  everything after the first comma, and the segment between the first comma and the next
  one (or the end of the string).
\<close>

definition after_first_comma :: "string \<Rightarrow> string" where
  "after_first_comma s = tl (dropWhile (\<lambda>c. c \<noteq> CHR '','') s)"

definition first_comma_segment :: "string \<Rightarrow> string" where
  "first_comma_segment s = takeWhile (\<lambda>c. c \<noteq> CHR '','') (after_first_comma s)"

section \<open>The platform's \<^verbatim>\<open>atob\<close>\<close>

text \<open>
  \<^verbatim>\<open>atob\<close> is the forgiving base64 decoder of the HTML standard: ASCII whitespace is
  dropped; when the length is then a multiple of four, one or two trailing \<^verbatim>\<open>=\<close> are
  dropped; a length that leaves remainder one, or any character outside the base64
  alphabet, is an InvalidCharacterError; each character gives six bits, and the bits
  left over at the end (four of twelve, two of eighteen) are discarded. The handler then
  reads the character codes of the result into a \<^verbatim>\<open>Uint8Array\<close> and spreads it into an
  array of numbers, which is the list of the decoded bytes.
\<close>

definition ascii_whitespace :: "char \<Rightarrow> bool" where
  "ascii_whitespace c = (c \<in> set [CHR 0x09, CHR 0x0A, CHR 0x0C, CHR 0x0D, CHR 0x20])"

definition strip_padding :: "string \<Rightarrow> string" where
  "strip_padding s =
     (if length s mod 4 = 0 then
        (if 2 \<le> length s \<and> drop (length s - 2) s = ''=='' then take (length s - 2) s
         else if 1 \<le> length s \<and> drop (length s - 1) s = ''='' then take (length s - 1) s
         else s)
      else s)"

definition b64_value :: "char \<Rightarrow> nat option" where
  "b64_value c =
     (let n = (of_char c :: nat) in
      if 65 \<le> n \<and> n \<le> 90 then Some (n - 65)
      else if 97 \<le> n \<and> n \<le> 122 then Some (n - 71)
      else if 48 \<le> n \<and> n \<le> 57 then Some (n + 4)
      else if c = CHR ''+'' then Some 62
      else if c = CHR ''/'' then Some 63
      else None)"

fun b64_bytes :: "nat list \<Rightarrow> nat list" where
  "b64_bytes (a # b # c # d # rest) =
     (let n = ((a * 64 + b) * 64 + c) * 64 + d
      in [n div 65536, n div 256 mod 256, n mod 256] @ b64_bytes rest)"
| "b64_bytes [a, b, c] = (let n = (a * 64 + b) * 64 + c in [n div 1024, n div 4 mod 256])"
| "b64_bytes [a, b] = [(a * 64 + b) div 16]"
| "b64_bytes xs = []"

definition atob :: "string option \<Rightarrow> thrown + nat list" where
  "atob arg =
     (let data = strip_padding (filter (\<lambda>c. \<not> ascii_whitespace c)
                   (case arg of None \<Rightarrow> ''undefined'' | Some s \<Rightarrow> s))
      in if length data mod 4 = 1 \<or> (\<exists>c \<in> set data. b64_value c = None)
         then Inl (InvalidCharacterError ''The string to be decoded is not correctly encoded.'')
         else Inr (b64_bytes (map (\<lambda>c. the (b64_value c)) data)))"

section \<open>\<^verbatim>\<open>JSON.stringify\<close>\<close>

text \<open>
  The text \<^verbatim>\<open>JSON.stringify(v)\<close> of a value, as ECMAScript defines it. A string is
  quoted, with the quote, the backslash and the control characters escaped. A finite
  number is written as JavaScript prints it; \<^verbatim>\<open>Infinity\<close>, \<^verbatim>\<open>-Infinity\<close> and
  \<^verbatim>\<open>NaN\<close> are written \<^verbatim>\<open>null\<close>. (\<^verbatim>\<open>JSON.parse\<close> reads a literal too large for a
  double, such as \<^verbatim>\<open>1e999\<close>, as \<^verbatim>\<open>Infinity\<close>.) Arrays and objects are written
  without white space, the properties of an object in their order.
\<close>

definition hex_digit :: "nat \<Rightarrow> char" where
  "hex_digit n = ''0123456789abcdef'' ! n"

definition quote_char :: "char \<Rightarrow> string" where
  "quote_char c =
     (if c = CHR 0x08 then [CHR 0x5C, CHR ''b'']
      else if c = CHR 0x09 then [CHR 0x5C, CHR ''t'']
      else if c = CHR 0x0A then [CHR 0x5C, CHR ''n'']
      else if c = CHR 0x0C then [CHR 0x5C, CHR ''f'']
      else if c = CHR 0x0D then [CHR 0x5C, CHR ''r'']
      else if c = CHR 0x22 then [CHR 0x5C, CHR 0x22]
      else if c = CHR 0x5C then [CHR 0x5C, CHR 0x5C]
      else if (of_char c :: nat) < 32
        then [CHR 0x5C, CHR ''u'', CHR ''0'', CHR ''0'',
              hex_digit ((of_char c :: nat) div 16), hex_digit ((of_char c :: nat) mod 16)]
      else [c])"

definition QuoteJSONString :: "string \<Rightarrow> string" where
  "QuoteJSONString s = [CHR 0x22] @ concat (map quote_char s) @ [CHR 0x22]"

definition non_finite :: "string \<Rightarrow> bool" where
  "non_finite t = (t = ''Infinity'' \<or> t = ''-Infinity'' \<or> t = ''NaN'')"

fun JSON_stringify :: "json \<Rightarrow> string"
  and stringify_elements :: "json list \<Rightarrow> string list"
  and stringify_properties :: "(string \<times> json) list \<Rightarrow> string list" where
  "JSON_stringify JNull = ''null''"
| "JSON_stringify (JBool b) = (if b then ''true'' else ''false'')"
| "JSON_stringify (JNum t) = (if non_finite t then ''null'' else t)"
| "JSON_stringify (JStr s) = QuoteJSONString s"
| "JSON_stringify (JArr xs) = ''['' @ join '','' (stringify_elements xs) @ '']''"
| "JSON_stringify (JObj kvs) = ''{'' @ join '','' (stringify_properties kvs) @ ''}''"
| "stringify_elements [] = []"
| "stringify_elements (x # xs) = JSON_stringify x # stringify_elements xs"
| "stringify_properties [] = []"
| "stringify_properties ((k, v) # kvs) =
     (QuoteJSONString k @ '':'' @ JSON_stringify v) # stringify_properties kvs"

text \<open>
  What is left of a value once it has been written and read back: the value with every
  non-finite number replaced by \<^verbatim>\<open>null\<close>.
\<close>

fun finite_only :: "json \<Rightarrow> json"
  and finite_only_elements :: "json list \<Rightarrow> json list"
  and finite_only_properties :: "(string \<times> json) list \<Rightarrow> (string \<times> json) list" where
  "finite_only JNull = JNull"
| "finite_only (JBool b) = JBool b"
| "finite_only (JNum t) = (if non_finite t then JNull else JNum t)"
| "finite_only (JStr s) = JStr s"
| "finite_only (JArr xs) = JArr (finite_only_elements xs)"
| "finite_only (JObj kvs) = JObj (finite_only_properties kvs)"
| "finite_only_elements [] = []"
| "finite_only_elements (x # xs) = finite_only x # finite_only_elements xs"
| "finite_only_properties [] = []"
| "finite_only_properties ((k, v) # kvs) = (k, finite_only v) # finite_only_properties kvs"

section \<open>Requests and responses\<close>

text \<open>
  Of the inbound request the handler reads the method and the outcome of
  \<^verbatim>\<open>request.json()\<close>: the parsed body, or what the parser threw.
\<close>

record request =
  request_method :: string
  json :: "thrown + json"

text \<open>A response body is absent (\<^verbatim>\<open>null\<close>) or a text.\<close>

datatype body = Null | Text string

record response =
  status :: nat
  headers :: "(string \<times> string) list"
  body :: body

text \<open>
  \<^verbatim>\<open>new Response(body, {status, headers})\<close> as the Fetch standard has it: the status
  defaults to 200; a status outside 200..599 is a RangeError; a body on a null-body status
  (204, 205, 304) is a TypeError; a text body with no \<^verbatim>\<open>Content-Type\<close> of its own is
  given \<^verbatim>\<open>text/plain;charset=UTF-8\<close>.
\<close>

definition new_Response :: "body \<Rightarrow> nat option \<Rightarrow> (string \<times> string) list \<Rightarrow> thrown + response" where
  "new_Response b st hs =
     (let s = (case st of None \<Rightarrow> 200 | Some n \<Rightarrow> n) in
      if s < 200 \<or> 599 < s then Inl (RangeError ''The status provided is outside the range [200, 599].'')
      else if b \<noteq> Null \<and> s \<in> set [204, 205, 304]
        then Inl (TypeError ''Response with null body status cannot have body'')
      else Inr \<lparr> status = s,
                 headers = (if b \<noteq> Null \<and> map_of hs ''Content-Type'' = None
                            then hs @ [(''content-type'', ''text/plain;charset=UTF-8'')] else hs),
                 body = b \<rparr>)"

text \<open>The two headers of every JSON response of the handler, and the object
  \<^verbatim>\<open>{ message: m }\<close>.\<close>

definition json_headers :: "(string \<times> string) list" where
  "json_headers = [(''Content-Type'', ''application/json''), (''Access-Control-Allow-Origin'', ''*'')]"

definition preflight_headers :: "(string \<times> string) list" where
  "preflight_headers =
     [(''Access-Control-Allow-Origin'', ''*''),
      (''Access-Control-Allow-Methods'', ''POST, OPTIONS''),
      (''Access-Control-Allow-Headers'', ''Content-Type''),
      (''Access-Control-Max-Age'', ''86400'')]"

definition message_object :: "string \<Rightarrow> json" where
  "message_object m = JObj [(''message'', JStr m)]"

definition missing_fields_message :: string where
  "missing_fields_message = ''Missing image (base64 data URI) or prompt in request body''"

definition invalid_format_message :: string where
  "invalid_format_message =
     ''Invalid image format. Must be a base64 Data URI (e.g., data:image/jpeg;base64,...)''"

section \<open>The downstream call\<close>

text \<open>
  The input of the inference call: one message (role, content, image) and, in the binding
  variant, a token limit. The image is the list of decoded bytes (binding variant) or the
  data URI itself (HTTPS variant).
\<close>

datatype image_payload = Bytes "nat list" | Data_URI string

record ai_message =
  role :: string
  content :: "json option"
  image_data :: image_payload

record ai_input =
  messages :: "ai_message list"
  max_tokens :: "nat option"

text \<open>
  What the handler sent downstream: \<^verbatim>\<open>env.AI.run(modelId, aiInput)\<close>, or a
  \<^verbatim>\<open>fetch(url, {method, headers, body: JSON.stringify(aiPayload)})\<close>.
\<close>

datatype call =
    AI_run_call string ai_input
  | Fetch_call string string "(string \<times> string) list" ai_input

fun call_input :: "call \<Rightarrow> ai_input" where
  "call_input (AI_run_call m i) = i"
| "call_input (Fetch_call u m hs i) = i"

text \<open>
  The outcome of one run of the handler: the response it returns or the exception it lets
  escape, and the downstream calls it made.
\<close>

record outcome =
  result :: "thrown + response"
  calls :: "call list"

definition finish :: "thrown + response \<Rightarrow> outcome" where
  "finish r = \<lparr> result = r, calls = [] \<rparr>"

section \<open>The first part of the handler, common to all variants\<close>

text \<open>
  \<^verbatim>\<open>const { image, prompt } = requestData\<close>: a TypeError on \<^verbatim>\<open>null\<close>, the two
  properties otherwise.
\<close>

definition destructure :: "json \<Rightarrow> thrown + (json option \<times> json option)" where
  "destructure requestData =
     (if requestData = JNull
      then Inl (TypeError ''Cannot destructure property 'image' of 'requestData' as it is null.'')
      else (case get_prop requestData ''image'' of
              Inl e \<Rightarrow> Inl e
            | Inr img \<Rightarrow>
                (case get_prop requestData ''prompt'' of
                   Inl e \<Rightarrow> Inl e
                 | Inr prompt \<Rightarrow> Inr (img, prompt))))"

text \<open>
  The handler up to and including the data-URI check (lines 4-55 of \<^verbatim>\<open>src/index.js\<close>,
  15-67 of the binding variant): either the outcome is decided (\<open>Inl\<close>), or the checks
  passed and the handler goes on with the image string and the prompt (\<open>Inr\<close>). A truthy
  image that is no string has no callable \<^verbatim>\<open>startsWith\<close>: a TypeError.
\<close>

definition validate :: "request \<Rightarrow> (thrown + response) + (string \<times> json option)" where
  "validate request =
     (if request_method request = ''OPTIONS'' then Inl (new_Response Null None preflight_headers)
      else if request_method request \<noteq> ''POST'' then Inl (new_Response (Text ''Method Not Allowed'') (Some 405) [])
      else (case json request of
              Inl e \<Rightarrow>
                Inl (new_Response (Text (JSON_stringify (message_object ''Invalid JSON in request body'')))
                       (Some 400) json_headers)
            | Inr requestData \<Rightarrow>
                (case destructure requestData of
                   Inl e \<Rightarrow> Inl (Inl e)
                 | Inr (img, prompt) \<Rightarrow>
                     if \<not> truthy img \<or> \<not> truthy prompt
                     then Inl (new_Response (Text (JSON_stringify (message_object missing_fields_message)))
                                 (Some 400) json_headers)
                     else (case img of
                             Some (JStr s) \<Rightarrow>
                               if \<not> startsWith s ''data:image/'' \<or> \<not> includes_str s '';base64,''
                               then Inl (new_Response (Text (JSON_stringify (message_object invalid_format_message)))
                                           (Some 400) json_headers)
                               else Inr (s, prompt)
                           | _ \<Rightarrow> Inl (Inl (TypeError ''image.startsWith is not a function''))))))"

section \<open>The binding variant\<close>

text \<open>The environment of the binding variant: \<^verbatim>\<open>env.AI.run\<close>, which resolves to a result
  or throws.\<close>

record binding_env =
  AI_run :: "string \<Rightarrow> ai_input \<Rightarrow> thrown + json"

text \<open>
  The \<^verbatim>\<open>catch\<close> block of the binding call:
  \<^verbatim>\<open>typeof error === 'string' ? error : (error.message || 'Unknown error ...')\<close>.
\<close>

definition error_message :: "thrown \<Rightarrow> thrown + json option" where
  "error_message error =
     (case error of
        Error_object name msg \<Rightarrow> Inr (Some (JStr msg))
      | Thrown_value v \<Rightarrow> get_prop v ''message'')"

definition binding_errorMessage :: "thrown \<Rightarrow> thrown + string" where
  "binding_errorMessage error =
     (case error of
        Thrown_value (JStr s) \<Rightarrow> Inr s
      | _ \<Rightarrow>
          (case error_message error of
             Inl e \<Rightarrow> Inl e
           | Inr m \<Rightarrow> template_text (or_else m (Some (JStr ''Unknown error from Cloudflare AI binding'')))))"

definition binding_catch :: "thrown \<Rightarrow> thrown + response" where
  "binding_catch error =
     (case binding_errorMessage error of
        Inl e \<Rightarrow> Inl e
      | Inr errorMessage \<Rightarrow>
          new_Response (Text (JSON_stringify (message_object (''AI model error: '' @ errorMessage))))
            (Some 500) json_headers)"

definition modelId :: string where
  "modelId = ''@cf/llava-hf/llava-1.5-7b-hf''"

definition aiInput :: "json option \<Rightarrow> nat list \<Rightarrow> ai_input" where
  "aiInput prompt imageUint8Array =
     \<lparr> messages = [\<lparr> role = ''user'', content = prompt, image_data = Bytes imageUint8Array \<rparr>],
       max_tokens = Some 512 \<rparr>"

definition fetch_binding :: "binding_env \<Rightarrow> request \<Rightarrow> outcome" where
  "fetch_binding env request =
     (case validate request of
        Inl r \<Rightarrow> finish r
      | Inr (img, prompt) \<Rightarrow>
          (case atob (base64Data img) of
             Inl e \<Rightarrow>
               finish (new_Response (Text (JSON_stringify (message_object ''Failed to decode base64 image data.'')))
                         (Some 400) json_headers)
           | Inr imageUint8Array \<Rightarrow>
               \<lparr> result =
                   (case AI_run env modelId (aiInput prompt imageUint8Array) of
                      Inr aiResult \<Rightarrow> new_Response (Text (JSON_stringify aiResult)) (Some 200) json_headers
                    | Inl error \<Rightarrow> binding_catch error),
                 calls = [AI_run_call modelId (aiInput prompt imageUint8Array)] \<rparr>))"

section \<open>The HTTPS variant\<close>

text \<open>
  \<^verbatim>\<open>src/index.js\<close> calls the inference endpoint over HTTPS with the platform's global
  \<^verbatim>\<open>fetch\<close>. Of the endpoint's response the handler reads \<^verbatim>\<open>ok\<close> (the status is in
  200..299), the status, and the outcome of \<^verbatim>\<open>json()\<close>. The account and the token come
  from the environment; an unset variable prints as \<^verbatim>\<open>undefined\<close>.
\<close>

record https_env =
  ACCOUNT_ID :: "string option"
  API_TOKEN :: "string option"

record upstream_response =
  upstream_status :: nat
  upstream_json :: "thrown + json"

definition ok :: "upstream_response \<Rightarrow> bool" where
  "ok r = (200 \<le> upstream_status r \<and> upstream_status r \<le> 299)"

definition env_text :: "string option \<Rightarrow> string" where
  "env_text v = (case v of None \<Rightarrow> ''undefined'' | Some s \<Rightarrow> s)"

definition CLOUDFLARE_AI_URL :: "https_env \<Rightarrow> string" where
  "CLOUDFLARE_AI_URL env =
     ''https://api.cloudflare.com/client/v4/accounts/'' @ env_text (ACCOUNT_ID env)
       @ ''/ai/run/@cf/llava-1.5-7b-hf''"

definition aiPayload :: "json option \<Rightarrow> string \<Rightarrow> ai_input" where
  "aiPayload prompt img =
     \<lparr> messages = [\<lparr> role = ''user'', content = prompt, image_data = Data_URI img \<rparr>],
       max_tokens = None \<rparr>"

definition ai_fetch_call :: "https_env \<Rightarrow> json option \<Rightarrow> string \<Rightarrow> call" where
  "ai_fetch_call env prompt img =
     Fetch_call (CLOUDFLARE_AI_URL env) ''POST''
       [(''Authorization'', ''Bearer '' @ env_text (API_TOKEN env)),
        (''Content-Type'', ''application/json'')]
       (aiPayload prompt img)"

text \<open>\<^verbatim>\<open>errorData.errors?.[0]?.message || 'Unknown error from Cloudflare AI'\<close>, rendered
  into the template.\<close>

definition errorData_details :: "json \<Rightarrow> thrown + string" where
  "errorData_details errorData =
     (case get_prop errorData ''errors'' of
        Inl e \<Rightarrow> Inl e
      | Inr errors \<Rightarrow>
          (case opt_chain errors get_index0 of
             Inl e \<Rightarrow> Inl e
           | Inr first \<Rightarrow>
               (case opt_chain first (\<lambda>v. get_prop v ''message'') of
                  Inl e \<Rightarrow> Inl e
                | Inr m \<Rightarrow> template_text (or_else m (Some (JStr ''Unknown error from Cloudflare AI''))))))"

text \<open>The body of the \<^verbatim>\<open>try\<close> block, once \<^verbatim>\<open>fetch\<close> has resolved.\<close>

definition relay :: "upstream_response \<Rightarrow> thrown + response" where
  "relay aiResponse =
     (if \<not> ok aiResponse then
        (case upstream_json aiResponse of
           Inl e \<Rightarrow> Inl e
         | Inr errorData \<Rightarrow>
             (case errorData_details errorData of
                Inl e \<Rightarrow> Inl e
              | Inr details \<Rightarrow>
                  new_Response (Text (JSON_stringify (message_object (''AI model error: '' @ details))))
                    (Some (upstream_status aiResponse)) json_headers))
      else
        (case upstream_json aiResponse of
           Inl e \<Rightarrow> Inl e
         | Inr aiResult \<Rightarrow> new_Response (Text (JSON_stringify aiResult)) (Some 200) json_headers))"

text \<open>
  The \<^verbatim>\<open>catch\<close> block: \<^verbatim>\<open>{ message: 'Internal server error ...', error: error.message }\<close>;
  \<^verbatim>\<open>JSON.stringify\<close> leaves out a property whose value is \<^verbatim>\<open>undefined\<close>.
\<close>

definition https_catch :: "thrown \<Rightarrow> thrown + response" where
  "https_catch error =
     (case error_message error of
        Inl e \<Rightarrow> Inl e
      | Inr m \<Rightarrow>
          new_Response
            (Text (JSON_stringify
               (JObj ((''message'', JStr ''Internal server error while processing request'')
                      # (case m of None \<Rightarrow> [] | Some v \<Rightarrow> [(''error'', v)])))))
            (Some 500) json_headers)"

definition fetch_https ::
    "(call \<Rightarrow> thrown + upstream_response) \<Rightarrow> https_env \<Rightarrow> request \<Rightarrow> outcome" where
  "fetch_https global_fetch env request =
     (case validate request of
        Inl r \<Rightarrow> finish r
      | Inr (img, prompt) \<Rightarrow>
          \<lparr> result =
              (case (case global_fetch (ai_fetch_call env prompt img) of
                       Inl e \<Rightarrow> Inl e
                     | Inr aiResponse \<Rightarrow> relay aiResponse) of
                 Inr r \<Rightarrow> Inr r
               | Inl error \<Rightarrow> https_catch error),
            calls = [ai_fetch_call env prompt img] \<rparr>)"

section \<open>Sample requests and downstream stubs\<close>

text \<open>A JSON response of the handler, as a value.\<close>

definition json_response :: "nat \<Rightarrow> json \<Rightarrow> response" where
  "json_response st v = \<lparr> status = st, headers = json_headers, body = Text (JSON_stringify v) \<rparr>"

definition method_not_allowed :: response where
  "method_not_allowed =
     \<lparr> status = 405, headers = [(''content-type'', ''text/plain;charset=UTF-8'')],
       body = Text ''Method Not Allowed'' \<rparr>"

text \<open>A POST request whose body parsed to the given value.\<close>

definition post :: "json \<Rightarrow> request" where
  "post v = \<lparr> request_method = ''POST'', json = Inr v \<rparr>"

definition sample_body :: "string \<Rightarrow> json" where
  "sample_body uri =
     JObj [(''image'', JStr uri), (''prompt'', JStr ''describe''), (''max_tokens'', JNum ''100'')]"

text \<open>A binding that answers every call with \<^verbatim>\<open>{ description: "a cat" }\<close>, one that
  throws an \<^verbatim>\<open>Error\<close>, and the same two behaviours for the HTTPS endpoint.\<close>

definition cat :: json where
  "cat = JObj [(''description'', JStr ''a cat'')]"

definition cat_binding :: binding_env where
  "cat_binding = \<lparr> AI_run = (\<lambda>m i. Inr cat) \<rparr>"

definition failing_binding :: binding_env where
  "failing_binding = \<lparr> AI_run = (\<lambda>m i. Inl (Error_object ''Error'' ''Authentication error'')) \<rparr>"

definition account :: https_env where
  "account = \<lparr> ACCOUNT_ID = Some ''acc'', API_TOKEN = Some ''tok'' \<rparr>"

definition cat_endpoint :: "call \<Rightarrow> thrown + upstream_response" where
  "cat_endpoint c = Inr \<lparr> upstream_status = 200, upstream_json = Inr cat \<rparr>"

definition unauthorized_endpoint :: "call \<Rightarrow> thrown + upstream_response" where
  "unauthorized_endpoint c =
     Inr \<lparr> upstream_status = 401,
           upstream_json = Inr (JObj [(''success'', JBool False),
             (''errors'', JArr [JObj [(''code'', JNum ''10000''), (''message'', JStr ''Authentication error'')]])]) \<rparr>"

text \<open>An endpoint that answers 200 with the body \<^verbatim>\<open>{"description":"a cat","n":1e999}\<close>,
  whose number \<^verbatim>\<open>json()\<close> reads as \<^verbatim>\<open>Infinity\<close>.\<close>

definition overflow_endpoint :: "call \<Rightarrow> thrown + upstream_response" where
  "overflow_endpoint c =
     Inr \<lparr> upstream_status = 200,
           upstream_json = Inr (JObj [(''description'', JStr ''a cat''), (''n'', JNum ''Infinity'')]) \<rparr>"

definition bad_gateway_endpoint :: "call \<Rightarrow> thrown + upstream_response" where
  "bad_gateway_endpoint c =
     Inr \<lparr> upstream_status = 502,
           upstream_json = Inl (Error_object ''SyntaxError'' ''Unexpected token < in JSON at position 0'') \<rparr>"

section \<open>The string operations mean what their names say\<close>

lemma startsWith_iff: "startsWith s p \<longleftrightarrow> (\<exists>r. s = p @ r)"
  by (induction s p rule: startsWith.induct) auto

lemma includes_str_iff: "includes_str s p \<longleftrightarrow> (\<exists>a b. s = a @ p @ b)"
proof (induction s)
  case Nil
  then show ?case by auto
next
  case (Cons c cs)
  show ?case
  proof
    assume "includes_str (c # cs) p"
    then consider "startsWith (c # cs) p" | "includes_str cs p" by auto
    then show "\<exists>a b. c # cs = a @ p @ b"
    proof cases
      case 1
      then obtain r where "c # cs = p @ r" by (auto simp: startsWith_iff)
      then have "c # cs = [] @ p @ r" by simp
      then show ?thesis by blast
    next
      case 2
      then obtain a b where "cs = a @ p @ b" using Cons.IH by blast
      then have "c # cs = (c # a) @ p @ b" by simp
      then show ?thesis by blast
    qed
  next
    assume "\<exists>a b. c # cs = a @ p @ b"
    then obtain a b where ab: "c # cs = a @ p @ b" by blast
    show "includes_str (c # cs) p"
    proof (cases a)
      case Nil
      with ab have "startsWith (c # cs) p" by (auto simp: startsWith_iff)
      then show ?thesis by simp
    next
      case (Cons x a')
      with ab have "cs = a' @ p @ b" by simp
      then have "includes_str cs p" using Cons.IH by blast
      then show ?thesis by simp
    qed
  qed
qed

section \<open>The paths of the common part\<close>

lemma new_Response_json:
  "200 \<le> st \<Longrightarrow> st \<le> 599 \<Longrightarrow> st \<noteq> 204 \<Longrightarrow> st \<noteq> 205 \<Longrightarrow> st \<noteq> 304 \<Longrightarrow>
   new_Response (Text (JSON_stringify v)) (Some st) json_headers = Inr (json_response st v)"
  by (simp add: new_Response_def json_response_def json_headers_def)

lemma validate_OPTIONS:
  "request_method request = ''OPTIONS'' \<Longrightarrow>
   validate request = Inl (Inr \<lparr> status = 200, headers = preflight_headers, body = Null \<rparr>)"
  by (simp add: validate_def new_Response_def)

lemma validate_other_method:
  "request_method request \<noteq> ''OPTIONS'' \<Longrightarrow> request_method request \<noteq> ''POST'' \<Longrightarrow>
   validate request = Inl (Inr method_not_allowed)"
  by (simp add: validate_def new_Response_def method_not_allowed_def)

lemma validate_invalid_json:
  "request_method request = ''POST'' \<Longrightarrow> json request = Inl e \<Longrightarrow>
   validate request = Inl (Inr (json_response 400 (message_object ''Invalid JSON in request body'')))"
  by (simp add: validate_def new_Response_json)

lemma validate_null:
  "request_method request = ''POST'' \<Longrightarrow> json request = Inr JNull \<Longrightarrow>
   validate request =
     Inl (Inl (TypeError ''Cannot destructure property 'image' of 'requestData' as it is null.''))"
  by (simp add: validate_def destructure_def)

lemma get_prop_not_null: "v \<noteq> JNull \<Longrightarrow> \<exists>p. get_prop v k = Inr p"
  by (cases v) auto

lemma destructure_not_null:
  "v \<noteq> JNull \<Longrightarrow> get_prop v ''image'' = Inr i \<Longrightarrow> get_prop v ''prompt'' = Inr p \<Longrightarrow>
   destructure v = Inr (i, p)"
  by (simp add: destructure_def)

lemma validate_missing:
  "request_method request = ''POST'' \<Longrightarrow> json request = Inr v \<Longrightarrow> v \<noteq> JNull \<Longrightarrow>
   get_prop v ''image'' = Inr i \<Longrightarrow> get_prop v ''prompt'' = Inr p \<Longrightarrow>
   \<not> truthy i \<or> \<not> truthy p \<Longrightarrow>
   validate request = Inl (Inr (json_response 400 (message_object missing_fields_message)))"
  by (auto simp: validate_def destructure_not_null new_Response_json)

lemma validate_not_a_string:
  "request_method request = ''POST'' \<Longrightarrow> json request = Inr (JObj kvs) \<Longrightarrow>
   map_of kvs ''image'' = Some v \<Longrightarrow> truthy (Some v) \<Longrightarrow> \<forall>s. v \<noteq> JStr s \<Longrightarrow>
   truthy (map_of kvs ''prompt'') \<Longrightarrow>
   validate request = Inl (Inl (TypeError ''image.startsWith is not a function''))"
  by (cases v) (auto simp: validate_def destructure_def)

lemma validate_bad_format:
  "request_method request = ''POST'' \<Longrightarrow> json request = Inr (JObj kvs) \<Longrightarrow>
   map_of kvs ''image'' = Some (JStr s) \<Longrightarrow> s \<noteq> [] \<Longrightarrow> truthy (map_of kvs ''prompt'') \<Longrightarrow>
   \<not> startsWith s ''data:image/'' \<or> \<not> includes_str s '';base64,'' \<Longrightarrow>
   validate request = Inl (Inr (json_response 400 (message_object invalid_format_message)))"
  by (auto simp: validate_def destructure_def new_Response_json)

lemma validate_passes:
  "request_method request = ''POST'' \<Longrightarrow> json request = Inr (JObj kvs) \<Longrightarrow>
   map_of kvs ''image'' = Some (JStr s) \<Longrightarrow> truthy (map_of kvs ''prompt'') \<Longrightarrow>
   startsWith s ''data:image/'' \<Longrightarrow> includes_str s '';base64,'' \<Longrightarrow>
   validate request = Inr (s, map_of kvs ''prompt'')"
  by (cases s) (auto simp: validate_def destructure_def)

lemma fetch_binding_decided: "validate request = Inl r \<Longrightarrow> fetch_binding env request = finish r"
  by (simp add: fetch_binding_def)

lemma fetch_https_decided:
  "validate request = Inl r \<Longrightarrow> fetch_https global_fetch env request = finish r"
  by (simp add: fetch_https_def)

section \<open>The claims\<close>

text \<open>
  C5. For every OPTIONS request, whatever its body, both variants of the handler return an
  empty body with exactly the four headers Access-Control-Allow-Origin: *,
  Access-Control-Allow-Methods: POST, OPTIONS, Access-Control-Allow-Headers: Content-Type
  and Access-Control-Max-Age: 86400 (with the default status 200, and no downstream call).
\<close>

theorem preflight_returns_four_cors_headers:
  assumes "request_method request = ''OPTIONS''"
  shows "fetch_binding env request =
           \<lparr> result = Inr \<lparr> status = 200,
                headers = [(''Access-Control-Allow-Origin'', ''*''),
                           (''Access-Control-Allow-Methods'', ''POST, OPTIONS''),
                           (''Access-Control-Allow-Headers'', ''Content-Type''),
                           (''Access-Control-Max-Age'', ''86400'')],
                body = Null \<rparr>,
             calls = [] \<rparr>
       \<and> fetch_https global_fetch henv request = fetch_binding env request"
  using assms
  by (simp add: fetch_binding_decided fetch_https_decided validate_OPTIONS finish_def
      preflight_headers_def)

theorem preflight_returns_four_cors_headers_witness:
  "fetch_binding cat_binding \<lparr> request_method = ''OPTIONS'', json = Inr (sample_body ''junk'') \<rparr> =
     \<lparr> result = Inr \<lparr> status = 200,
          headers = [(''Access-Control-Allow-Origin'', ''*''),
                     (''Access-Control-Allow-Methods'', ''POST, OPTIONS''),
                     (''Access-Control-Allow-Headers'', ''Content-Type''),
                     (''Access-Control-Max-Age'', ''86400'')],
          body = Null \<rparr>,
       calls = [] \<rparr>
   \<and> fetch_https cat_endpoint account \<lparr> request_method = ''OPTIONS'', json = Inr (sample_body ''junk'') \<rparr> =
     fetch_binding cat_binding \<lparr> request_method = ''OPTIONS'', json = Inr (sample_body ''junk'') \<rparr>"
  using preflight_returns_four_cors_headers
    [of "\<lparr> request_method = ''OPTIONS'', json = Inr (sample_body ''junk'') \<rparr>" cat_binding cat_endpoint account]
  by simp

text \<open>
  C6. For every request whose method is neither POST nor OPTIONS, both variants return
  status 405 with the plain-text body "Method Not Allowed", and call nothing downstream.
\<close>

theorem other_methods_rejected_405:
  assumes "request_method request \<noteq> ''POST''" and "request_method request \<noteq> ''OPTIONS''"
  shows "fetch_binding env request =
           \<lparr> result = Inr \<lparr> status = 405,
                headers = [(''content-type'', ''text/plain;charset=UTF-8'')],
                body = Text ''Method Not Allowed'' \<rparr>,
             calls = [] \<rparr>
       \<and> fetch_https global_fetch henv request = fetch_binding env request"
  using assms
  by (simp add: fetch_binding_decided fetch_https_decided validate_other_method finish_def
      method_not_allowed_def)

theorem other_methods_rejected_405_witness:
  "fetch_binding cat_binding \<lparr> request_method = ''GET'', json = Inl (Error_object ''SyntaxError'' []) \<rparr> =
     \<lparr> result = Inr \<lparr> status = 405,
          headers = [(''content-type'', ''text/plain;charset=UTF-8'')],
          body = Text ''Method Not Allowed'' \<rparr>,
       calls = [] \<rparr>
   \<and> fetch_https cat_endpoint account \<lparr> request_method = ''GET'', json = Inl (Error_object ''SyntaxError'' []) \<rparr> =
     fetch_binding cat_binding \<lparr> request_method = ''GET'', json = Inl (Error_object ''SyntaxError'' []) \<rparr>"
  using other_methods_rejected_405
    [of "\<lparr> request_method = ''GET'', json = Inl (Error_object ''SyntaxError'' []) \<rparr>" cat_binding cat_endpoint account]
  by simp

section \<open>The paths after the checks\<close>

lemma fetch_binding_undecodable:
  "validate request = Inr (s, prompt) \<Longrightarrow> atob (base64Data s) = Inl e \<Longrightarrow>
   fetch_binding env request =
     finish (Inr (json_response 400 (message_object ''Failed to decode base64 image data.'')))"
  by (simp add: fetch_binding_def new_Response_json)

lemma fetch_binding_calls:
  "validate request = Inr (s, prompt) \<Longrightarrow> atob (base64Data s) = Inr bytes \<Longrightarrow>
   fetch_binding env request =
     \<lparr> result = (case AI_run env modelId (aiInput prompt bytes) of
                    Inr aiResult \<Rightarrow> Inr (json_response 200 aiResult)
                  | Inl error \<Rightarrow> binding_catch error),
       calls = [AI_run_call modelId (aiInput prompt bytes)] \<rparr>"
  by (simp add: fetch_binding_def new_Response_json split: sum.splits)

lemma fetch_https_calls:
  "validate request = Inr (s, prompt) \<Longrightarrow>
   fetch_https global_fetch env request =
     \<lparr> result = (case (case global_fetch (ai_fetch_call env prompt s) of
                           Inl e \<Rightarrow> Inl e
                         | Inr aiResponse \<Rightarrow> relay aiResponse) of
                    Inr r \<Rightarrow> Inr r
                  | Inl error \<Rightarrow> https_catch error),
       calls = [ai_fetch_call env prompt s] \<rparr>"
  by (simp add: fetch_https_def)

section \<open>Evaluating the sample requests\<close>

lemma atob_QUJD: "atob (Some ''QUJD'') = Inr [65, 66, 67]"
  by (simp add: atob_def strip_padding_def ascii_whitespace_def b64_value_def)

lemma atob_padding_and_whitespace:
  "atob (Some ''QUI='') = Inr [65, 66]"
  "atob (Some ''QQ=='') = Inr [65]"
  "atob (Some ''QU JD'') = Inr [65, 66, 67]"
  "atob (Some ''QUJDQ'') = Inl (InvalidCharacterError ''The string to be decoded is not correctly encoded.'')"
  "atob (Some []) = Inr []"
  by (simp_all add: atob_def strip_padding_def ascii_whitespace_def b64_value_def)

lemma base64Data_sample: "base64Data ''data:image/png;base64,QUJD'' = Some ''QUJD''"
  by (simp add: base64Data_def)

lemma sample_passes:
  "validate (post (sample_body ''data:image/png;base64,QUJD'')) =
     Inr (''data:image/png;base64,QUJD'', Some (JStr ''describe''))"
  by (simp add: validate_def post_def sample_body_def destructure_def)

lemma sample_binding_calls:
  "calls (fetch_binding env (post (sample_body ''data:image/png;base64,QUJD''))) =
     [AI_run_call modelId (aiInput (Some (JStr ''describe'')) [65, 66, 67])]"
  by (simp add: fetch_binding_calls [OF sample_passes] base64Data_sample atob_QUJD)

lemma sample_https_calls:
  "calls (fetch_https global_fetch henv (post (sample_body ''data:image/png;base64,QUJD''))) =
     [ai_fetch_call henv (Some (JStr ''describe'')) ''data:image/png;base64,QUJD'']"
  by (simp add: fetch_https_calls [OF sample_passes])

section \<open>The claims about the token limit and the CORS header\<close>

text \<open>
  C1. The claim: a max_tokens field of the request body is forwarded to the downstream
  call unchanged, and 512 is sent when the field is omitted. The code never reads the
  field. For the request body
  \<^verbatim>\<open>{ image: "data:image/png;base64,QUJD", prompt: "describe", max_tokens: 100 }\<close>
  the binding variant calls the model with max_tokens 512, and the HTTPS variant sends a
  payload with no max_tokens at all.
\<close>

theorem max_tokens_of_request_is_ignored:
  "map (max_tokens \<circ> call_input)
     (calls (fetch_binding env
        (post (JObj [(''image'', JStr ''data:image/png;base64,QUJD''),
                     (''prompt'', JStr ''describe''),
                     (''max_tokens'', JNum ''100'')])))) = [Some 512]
   \<and> map (max_tokens \<circ> call_input)
     (calls (fetch_https global_fetch henv
        (post (JObj [(''image'', JStr ''data:image/png;base64,QUJD''),
                     (''prompt'', JStr ''describe''),
                     (''max_tokens'', JNum ''100'')])))) = [None]"
  using sample_binding_calls [of env] sample_https_calls [of global_fetch henv]
  by (simp add: sample_body_def aiInput_def ai_fetch_call_def aiPayload_def)

text \<open>
  C2. The claim: every response of the handler, the 405 method rejection included, carries
  Access-Control-Allow-Origin: *. For a GET request both variants answer 405 with the one
  header the platform adds to a text body, and no CORS header.
\<close>

theorem method_rejection_has_no_cors_header:
  "result (fetch_binding env \<lparr> request_method = ''GET'', json = j \<rparr>) = Inr method_not_allowed
   \<and> result (fetch_https global_fetch henv \<lparr> request_method = ''GET'', json = j \<rparr>) = Inr method_not_allowed
   \<and> status method_not_allowed = 405
   \<and> map_of (headers method_not_allowed) ''Access-Control-Allow-Origin'' = None"
  by (simp add: fetch_binding_decided fetch_https_decided validate_other_method finish_def
      method_not_allowed_def)

section \<open>The claims about validation and relay\<close>

lemma stringify_finite_only:
  "JSON_stringify (finite_only v) = JSON_stringify v"
  "stringify_elements (finite_only_elements xs) = stringify_elements xs"
  "stringify_properties (finite_only_properties kvs) = stringify_properties kvs"
  by (induction v and xs and kvs rule: JSON_stringify_stringify_elements_stringify_properties.induct)
     (auto simp: non_finite_def)

lemma stringify_cat: \<open>JSON_stringify cat = ''{"description":"a cat"}''\<close>
  by (simp add: cat_def QuoteJSONString_def quote_char_def)

text \<open>
  C4. The claim: on success the handler returns status 200 and the downstream JSON result
  verbatim as the response body. The handler parses the downstream result and writes it
  again with \<^verbatim>\<open>JSON.stringify\<close>, which writes a non-finite number as \<^verbatim>\<open>null\<close>: for the
  downstream body \<^verbatim>\<open>{"description":"a cat","n":1e999}\<close>, parsed with \<^verbatim>\<open>n\<close> as
  \<^verbatim>\<open>Infinity\<close>, the response body is \<^verbatim>\<open>{"description":"a cat","n":null}\<close>, the text of
  a different JSON value.
\<close>

theorem overflowing_number_relayed_as_null_counterexample:
  \<open>overflow_endpoint (ai_fetch_call account (Some (JStr ''describe'')) ''data:image/png;base64,QUJD'') =
     Inr \<lparr> upstream_status = 200,
           upstream_json = Inr (JObj [(''description'', JStr ''a cat''), (''n'', JNum ''Infinity'')]) \<rparr>
   \<and> result (fetch_https overflow_endpoint account (post (sample_body ''data:image/png;base64,QUJD''))) =
     Inr \<lparr> status = 200,
           headers = [(''Content-Type'', ''application/json''),
                      (''Access-Control-Allow-Origin'', ''*'')],
           body = Text ''{"description":"a cat","n":null}'' \<rparr>
   \<and> JSON_stringify (JObj [(''description'', JStr ''a cat''), (''n'', JNull)]) =
       ''{"description":"a cat","n":null}''\<close>
  by (simp add: fetch_https_calls [OF sample_passes] overflow_endpoint_def relay_def ok_def
      new_Response_def json_headers_def QuoteJSONString_def quote_char_def non_finite_def)

text \<open>
  C4, amended. For every valid POST request (parseable body, truthy prompt, an image string
  of the data-URI shape and, in the binding variant, a decodable payload) whose downstream
  call succeeds with a result that parses as JSON, the handler returns status 200, the two
  headers Content-Type: application/json and Access-Control-Allow-Origin: *, and as body
  the text that \<^verbatim>\<open>JSON.stringify\<close> gives for the parsed result: the downstream result
  written again, with every non-finite number written as null.
\<close>

theorem success_relays_downstream_result:
  assumes "request_method request = ''POST''"
    and "json request = Inr (JObj kvs)"
    and "map_of kvs ''image'' = Some (JStr s)"
    and "truthy (map_of kvs ''prompt'')"
    and "startsWith s ''data:image/''"
    and "includes_str s '';base64,''"
  shows "(atob (base64Data s) = Inr bytes \<and>
          AI_run env modelId (aiInput (map_of kvs ''prompt'') bytes) = Inr aiResult \<longrightarrow>
            result (fetch_binding env request) =
              Inr \<lparr> status = 200,
                    headers = [(''Content-Type'', ''application/json''),
                               (''Access-Control-Allow-Origin'', ''*'')],
                    body = Text (JSON_stringify aiResult) \<rparr>)
       \<and> (global_fetch (ai_fetch_call henv (map_of kvs ''prompt'') s) = Inr aiResponse \<and>
          ok aiResponse \<and> upstream_json aiResponse = Inr httpsResult \<longrightarrow>
            result (fetch_https global_fetch henv request) =
              Inr \<lparr> status = 200,
                    headers = [(''Content-Type'', ''application/json''),
                               (''Access-Control-Allow-Origin'', ''*'')],
                    body = Text (JSON_stringify httpsResult) \<rparr>)
       \<and> JSON_stringify v = JSON_stringify (finite_only v)"
proof -
  have v: "validate request = Inr (s, map_of kvs ''prompt'')"
    using assms by (rule validate_passes)
  have binding: "result (fetch_binding env request) = Inr (json_response 200 aiResult)"
    if "atob (base64Data s) = Inr bytes"
      and "AI_run env modelId (aiInput (map_of kvs ''prompt'') bytes) = Inr aiResult"
    using that by (simp add: fetch_binding_calls [OF v])
  have https: "result (fetch_https global_fetch henv request) = Inr (json_response 200 httpsResult)"
    if "global_fetch (ai_fetch_call henv (map_of kvs ''prompt'') s) = Inr aiResponse"
      and "ok aiResponse" and "upstream_json aiResponse = Inr httpsResult"
    using that by (simp add: fetch_https_calls [OF v] relay_def new_Response_json)
  show ?thesis
    using binding https
    by (simp add: json_response_def json_headers_def stringify_finite_only(1))
qed

theorem success_relays_downstream_result_witness:
  \<open>result (fetch_binding cat_binding (post (sample_body ''data:image/png;base64,QUJD''))) =
     Inr \<lparr> status = 200,
           headers = [(''Content-Type'', ''application/json''),
                      (''Access-Control-Allow-Origin'', ''*'')],
           body = Text ''{"description":"a cat"}'' \<rparr>
   \<and> result (fetch_https cat_endpoint account (post (sample_body ''data:image/png;base64,QUJD''))) =
     Inr \<lparr> status = 200,
           headers = [(''Content-Type'', ''application/json''),
                      (''Access-Control-Allow-Origin'', ''*'')],
           body = Text ''{"description":"a cat"}'' \<rparr>
   \<and> JSON_stringify (JNum ''Infinity'') = JSON_stringify JNull\<close>
proof -
  let ?uri = "''data:image/png;base64,QUJD''"
  let ?kvs = "[(''image'', JStr ?uri), (''prompt'', JStr ''describe''), (''max_tokens'', JNum ''100'')]"
  let ?R = "post (sample_body ?uri)"
  have h1: "request_method ?R = ''POST''" by (simp add: post_def)
  have h2: "json ?R = Inr (JObj ?kvs)" by (simp add: post_def sample_body_def)
  have h3: "map_of ?kvs ''image'' = Some (JStr ?uri)" by simp
  have h4: "truthy (map_of ?kvs ''prompt'')" by simp
  have h5: "startsWith ?uri ''data:image/''" by simp
  have h6: "includes_str ?uri '';base64,''" by simp
  have p: "map_of ?kvs ''prompt'' = Some (JStr ''describe'')" by simp
  note t = success_relays_downstream_result
      [OF h1 h2 h3 h4 h5 h6, where bytes = "[65, 66, 67]"
         and env = cat_binding and aiResult = cat
         and global_fetch = cat_endpoint and henv = account
         and aiResponse = "\<lparr> upstream_status = 200, upstream_json = Inr cat \<rparr>"
         and httpsResult = cat and v = "JNum ''Infinity''"]
  have a: "result (fetch_binding cat_binding ?R) =
     Inr \<lparr> status = 200,
           headers = [(''Content-Type'', ''application/json''),
                      (''Access-Control-Allow-Origin'', ''*'')],
           body = Text (JSON_stringify cat) \<rparr>"
    using t [THEN conjunct1]
    by (simp add: p base64Data_sample atob_QUJD cat_binding_def del: JSON_stringify.simps)
  have b: "result (fetch_https cat_endpoint account ?R) =
     Inr \<lparr> status = 200,
           headers = [(''Content-Type'', ''application/json''),
                      (''Access-Control-Allow-Origin'', ''*'')],
           body = Text (JSON_stringify cat) \<rparr>"
    using t [THEN conjunct2, THEN conjunct1]
    by (simp add: p cat_endpoint_def ok_def del: JSON_stringify.simps)
  have c: "JSON_stringify (JNum ''Infinity'') = JSON_stringify JNull"
    using t [THEN conjunct2, THEN conjunct2]
    by (simp add: non_finite_def del: JSON_stringify.simps)
  show ?thesis
    using a b c by (simp add: stringify_cat del: JSON_stringify.simps)
qed

text \<open>
  C7. For every POST request with a parseable body, a non-empty image string and a truthy
  prompt: if the image does not begin with "data:image/" or does not contain ";base64,",
  both variants return status 400 with the invalid-format message and call nothing
  downstream; otherwise the format check passes, and the handler goes on with the image
  and the prompt (the HTTPS variant to its downstream call).
\<close>

theorem data_uri_format_check:
  assumes "request_method request = ''POST''"
    and "json request = Inr (JObj kvs)"
    and "map_of kvs ''image'' = Some (JStr s)"
    and "s \<noteq> []"
    and "truthy (map_of kvs ''prompt'')"
  shows "(\<not> startsWith s ''data:image/'' \<or> \<not> includes_str s '';base64,'' \<longrightarrow>
            fetch_binding env request =
              \<lparr> result = Inr \<lparr> status = 400,
                   headers = [(''Content-Type'', ''application/json''),
                              (''Access-Control-Allow-Origin'', ''*'')],
                   body = Text (JSON_stringify (JObj [(''message'', JStr
                     ''Invalid image format. Must be a base64 Data URI (e.g., data:image/jpeg;base64,...)'')])) \<rparr>,
                calls = [] \<rparr>
            \<and> fetch_https global_fetch henv request = fetch_binding env request)
       \<and> (startsWith s ''data:image/'' \<and> includes_str s '';base64,'' \<longrightarrow>
            validate request = Inr (s, map_of kvs ''prompt'')
            \<and> calls (fetch_https global_fetch henv request) =
                [ai_fetch_call henv (map_of kvs ''prompt'') s])"
proof -
  have bad: "validate request = Inl (Inr (json_response 400 (message_object invalid_format_message)))"
    if "\<not> startsWith s ''data:image/'' \<or> \<not> includes_str s '';base64,''"
    using assms that by (rule validate_bad_format)
  have good: "validate request = Inr (s, map_of kvs ''prompt'')"
    if "startsWith s ''data:image/''" and "includes_str s '';base64,''"
    using assms(1,2,3,5) that by (rule validate_passes)
  show ?thesis
  proof (intro conjI impI)
    assume a: "\<not> startsWith s ''data:image/'' \<or> \<not> includes_str s '';base64,''"
    show "fetch_binding env request =
              \<lparr> result = Inr \<lparr> status = 400,
                   headers = [(''Content-Type'', ''application/json''),
                              (''Access-Control-Allow-Origin'', ''*'')],
                   body = Text (JSON_stringify (JObj [(''message'', JStr
                     ''Invalid image format. Must be a base64 Data URI (e.g., data:image/jpeg;base64,...)'')])) \<rparr>,
                calls = [] \<rparr>"
      by (simp add: fetch_binding_decided [OF bad [OF a]] finish_def json_response_def
          json_headers_def message_object_def invalid_format_message_def)
    show "fetch_https global_fetch henv request = fetch_binding env request"
      by (simp add: fetch_binding_decided [OF bad [OF a]] fetch_https_decided [OF bad [OF a]])
  next
    assume b: "startsWith s ''data:image/'' \<and> includes_str s '';base64,''"
    then show "validate request = Inr (s, map_of kvs ''prompt'')"
      using good by blast
    then show "calls (fetch_https global_fetch henv request) =
                [ai_fetch_call henv (map_of kvs ''prompt'') s]"
      by (simp add: fetch_https_calls)
  qed
qed

theorem data_uri_format_check_witness:
  "fetch_binding cat_binding (post (sample_body ''not-a-data-uri'')) =
     \<lparr> result = Inr \<lparr> status = 400,
          headers = [(''Content-Type'', ''application/json''),
                     (''Access-Control-Allow-Origin'', ''*'')],
          body = Text (JSON_stringify (JObj [(''message'', JStr
            ''Invalid image format. Must be a base64 Data URI (e.g., data:image/jpeg;base64,...)'')])) \<rparr>,
       calls = [] \<rparr>
   \<and> fetch_https cat_endpoint account (post (sample_body ''not-a-data-uri'')) =
       fetch_binding cat_binding (post (sample_body ''not-a-data-uri''))
   \<and> validate (post (sample_body ''data:image/png;base64,QUJD'')) =
       Inr (''data:image/png;base64,QUJD'', Some (JStr ''describe''))
   \<and> calls (fetch_https cat_endpoint account (post (sample_body ''data:image/png;base64,QUJD''))) =
       [ai_fetch_call account (Some (JStr ''describe'')) ''data:image/png;base64,QUJD'']"
  using data_uri_format_check
    [where request = "post (sample_body ''not-a-data-uri'')"
       and kvs = "[(''image'', JStr ''not-a-data-uri''),
                   (''prompt'', JStr ''describe''), (''max_tokens'', JNum ''100'')]"
       and s = "''not-a-data-uri''" and env = cat_binding
       and global_fetch = cat_endpoint and henv = account]
    data_uri_format_check
    [where request = "post (sample_body ''data:image/png;base64,QUJD'')"
       and kvs = "[(''image'', JStr ''data:image/png;base64,QUJD''),
                   (''prompt'', JStr ''describe''), (''max_tokens'', JNum ''100'')]"
       and s = "''data:image/png;base64,QUJD''" and env = cat_binding
       and global_fetch = cat_endpoint and henv = account]
  by (simp add: post_def sample_body_def)

text \<open>
  C10. Validation errors come in a fixed order. For every POST request whose body parsed
  to a value other than null: when the prompt is missing or falsy, both variants return
  the 400 missing-field message, whatever the image value is (malformed or not); and when
  the prompt is truthy and the image is a non-empty string of the wrong shape, they return
  the 400 invalid-format message, whether or not its payload would decode.
\<close>

theorem validation_order:
  assumes "request_method request = ''POST''"
    and "json request = Inr v"
    and "v \<noteq> JNull"
    and "get_prop v ''image'' = Inr i"
    and "get_prop v ''prompt'' = Inr p"
  shows "(\<not> truthy p \<longrightarrow>
            fetch_binding env request =
              \<lparr> result = Inr \<lparr> status = 400,
                   headers = [(''Content-Type'', ''application/json''),
                              (''Access-Control-Allow-Origin'', ''*'')],
                   body = Text (JSON_stringify (JObj [(''message'', JStr
                     ''Missing image (base64 data URI) or prompt in request body'')])) \<rparr>,
                calls = [] \<rparr>
            \<and> fetch_https global_fetch henv request = fetch_binding env request)
       \<and> (truthy p \<and> i = Some (JStr s) \<and> s \<noteq> [] \<and>
            (\<not> startsWith s ''data:image/'' \<or> \<not> includes_str s '';base64,'') \<longrightarrow>
            fetch_binding env request =
              \<lparr> result = Inr \<lparr> status = 400,
                   headers = [(''Content-Type'', ''application/json''),
                              (''Access-Control-Allow-Origin'', ''*'')],
                   body = Text (JSON_stringify (JObj [(''message'', JStr
                     ''Invalid image format. Must be a base64 Data URI (e.g., data:image/jpeg;base64,...)'')])) \<rparr>,
                calls = [] \<rparr>
            \<and> fetch_https global_fetch henv request = fetch_binding env request)"
proof (intro conjI impI)
  assume np: "\<not> truthy p"
  have m: "validate request = Inl (Inr (json_response 400 (message_object missing_fields_message)))"
    using assms np by (simp add: validate_missing)
  show "fetch_binding env request =
              \<lparr> result = Inr \<lparr> status = 400,
                   headers = [(''Content-Type'', ''application/json''),
                              (''Access-Control-Allow-Origin'', ''*'')],
                   body = Text (JSON_stringify (JObj [(''message'', JStr
                     ''Missing image (base64 data URI) or prompt in request body'')])) \<rparr>,
                calls = [] \<rparr>"
    by (simp add: fetch_binding_decided [OF m] finish_def json_response_def json_headers_def
        message_object_def missing_fields_message_def)
  show "fetch_https global_fetch henv request = fetch_binding env request"
    by (simp add: fetch_binding_decided [OF m] fetch_https_decided [OF m])
next
  assume a: "truthy p \<and> i = Some (JStr s) \<and> s \<noteq> [] \<and>
            (\<not> startsWith s ''data:image/'' \<or> \<not> includes_str s '';base64,'')"
  with assms(4) obtain kvs where kvs: "v = JObj kvs"
    by (cases v) auto
  with assms(4,5) a have props: "map_of kvs ''image'' = Some (JStr s)" "truthy (map_of kvs ''prompt'')"
    by auto
  have b: "validate request = Inl (Inr (json_response 400 (message_object invalid_format_message)))"
    using assms(1,2) kvs props a by (simp add: validate_bad_format)
  show "fetch_binding env request =
              \<lparr> result = Inr \<lparr> status = 400,
                   headers = [(''Content-Type'', ''application/json''),
                              (''Access-Control-Allow-Origin'', ''*'')],
                   body = Text (JSON_stringify (JObj [(''message'', JStr
                     ''Invalid image format. Must be a base64 Data URI (e.g., data:image/jpeg;base64,...)'')])) \<rparr>,
                calls = [] \<rparr>"
    by (simp add: fetch_binding_decided [OF b] finish_def json_response_def json_headers_def
        message_object_def invalid_format_message_def)
  show "fetch_https global_fetch henv request = fetch_binding env request"
    by (simp add: fetch_binding_decided [OF b] fetch_https_decided [OF b])
qed

theorem validation_order_witness:
  "fetch_binding cat_binding (post (JObj [(''image'', JStr ''not-a-data-uri'')])) =
     \<lparr> result = Inr \<lparr> status = 400,
          headers = [(''Content-Type'', ''application/json''),
                     (''Access-Control-Allow-Origin'', ''*'')],
          body = Text (JSON_stringify (JObj [(''message'', JStr
            ''Missing image (base64 data URI) or prompt in request body'')])) \<rparr>,
       calls = [] \<rparr>
   \<and> fetch_https cat_endpoint account (post (JObj [(''image'', JStr ''not-a-data-uri'')])) =
       fetch_binding cat_binding (post (JObj [(''image'', JStr ''not-a-data-uri'')]))
   \<and> fetch_binding cat_binding
       (post (JObj [(''image'', JStr ''data:image/png,!!''), (''prompt'', JStr ''x'')])) =
     \<lparr> result = Inr \<lparr> status = 400,
          headers = [(''Content-Type'', ''application/json''),
                     (''Access-Control-Allow-Origin'', ''*'')],
          body = Text (JSON_stringify (JObj [(''message'', JStr
            ''Invalid image format. Must be a base64 Data URI (e.g., data:image/jpeg;base64,...)'')])) \<rparr>,
       calls = [] \<rparr>"
  using validation_order
    [where request = "post (JObj [(''image'', JStr ''not-a-data-uri'')])"
       and v = "JObj [(''image'', JStr ''not-a-data-uri'')]"
       and i = "Some (JStr ''not-a-data-uri'')" and p = None
       and env = cat_binding and global_fetch = cat_endpoint and henv = account]
    validation_order
    [where request = "post (JObj [(''image'', JStr ''data:image/png,!!''), (''prompt'', JStr ''x'')])"
       and v = "JObj [(''image'', JStr ''data:image/png,!!''), (''prompt'', JStr ''x'')]"
       and i = "Some (JStr ''data:image/png,!!'')" and p = "Some (JStr ''x'')"
       and s = "''data:image/png,!!''"
       and env = cat_binding and global_fetch = cat_endpoint and henv = account]
  by (simp add: post_def)

text \<open>
  C9. The claim: a POST request whose body parses to null, or whose image field is a
  truthy non-string value, makes the handler throw instead of returning a 400 response.
  The second half needs a truthy prompt: for the body \<^verbatim>\<open>{ image: 5 }\<close> the presence
  check comes first and the handler returns the 400 missing-field response.
\<close>

theorem truthy_non_string_image_without_prompt_counterexample:
  "truthy (Some (JNum ''5'')) \<and>
   fetch_binding cat_binding (post (JObj [(''image'', JNum ''5'')])) =
     \<lparr> result = Inr \<lparr> status = 400,
          headers = [(''Content-Type'', ''application/json''),
                     (''Access-Control-Allow-Origin'', ''*'')],
          body = Text (JSON_stringify (JObj [(''message'', JStr
            ''Missing image (base64 data URI) or prompt in request body'')])) \<rparr>,
       calls = [] \<rparr>
   \<and> fetch_https cat_endpoint account (post (JObj [(''image'', JNum ''5'')])) =
       fetch_binding cat_binding (post (JObj [(''image'', JNum ''5'')]))"
  by (simp add: fetch_binding_def fetch_https_def validate_def post_def destructure_def
      new_Response_def finish_def json_headers_def message_object_def
      missing_fields_message_def)

text \<open>
  C9, amended. The handler is not total over JSON bodies: for a POST request whose body
  parses to null, or whose image field is a truthy non-string value while its prompt is
  truthy, both variants let a TypeError escape (destructuring null, or calling startsWith
  on a non-string) instead of returning a response, and call nothing downstream.
\<close>

theorem null_body_or_non_string_image_throws:
  assumes "request_method request = ''POST''"
    and "json request = Inr JNull \<or>
         (json request = Inr (JObj kvs) \<and> map_of kvs ''image'' = Some v \<and> truthy (Some v) \<and>
          (\<forall>s. v \<noteq> JStr s) \<and> truthy (map_of kvs ''prompt''))"
  shows "(\<exists>msg. result (fetch_binding env request) = Inl (TypeError msg))
       \<and> calls (fetch_binding env request) = []
       \<and> fetch_https global_fetch henv request = fetch_binding env request"
proof -
  from assms obtain msg where "validate request = Inl (Inl (TypeError msg))"
    using validate_null validate_not_a_string by blast
  then have "fetch_binding env request = finish (Inl (TypeError msg))"
    and "fetch_https global_fetch henv request = finish (Inl (TypeError msg))"
    by (simp_all add: fetch_binding_decided fetch_https_decided)
  then show ?thesis
    by (auto simp: finish_def)
qed

theorem null_body_or_non_string_image_throws_witness:
  "(\<exists>msg. result (fetch_binding cat_binding (post JNull)) = Inl (TypeError msg))
   \<and> calls (fetch_binding cat_binding (post JNull)) = []
   \<and> fetch_https cat_endpoint account (post JNull) = fetch_binding cat_binding (post JNull)
   \<and> (\<exists>msg. result (fetch_binding cat_binding
                (post (JObj [(''image'', JNum ''5''), (''prompt'', JStr ''x'')]))) = Inl (TypeError msg))
   \<and> calls (fetch_binding cat_binding
                (post (JObj [(''image'', JNum ''5''), (''prompt'', JStr ''x'')]))) = []
   \<and> fetch_https cat_endpoint account (post (JObj [(''image'', JNum ''5''), (''prompt'', JStr ''x'')])) =
       fetch_binding cat_binding (post (JObj [(''image'', JNum ''5''), (''prompt'', JStr ''x'')]))"
  using null_body_or_non_string_image_throws
    [where request = "post JNull" and env = cat_binding
       and global_fetch = cat_endpoint and henv = account]
    null_body_or_non_string_image_throws
    [where request = "post (JObj [(''image'', JNum ''5''), (''prompt'', JStr ''x'')])"
       and kvs = "[(''image'', JNum ''5''), (''prompt'', JStr ''x'')]" and v = "JNum ''5''"
       and env = cat_binding and global_fetch = cat_endpoint and henv = account]
  by (simp add: post_def)

section \<open>What the binding variant decodes\<close>

lemma split_str_not_Nil: "split_str s sep \<noteq> []"
  by (induction s) (auto split: list.splits)

lemma hd_split_str: "hd (split_str s sep) = takeWhile (\<lambda>c. c \<noteq> sep) s"
  by (induction s) (auto split: list.splits simp: split_str_not_Nil)

lemma index1_Cons: "index1 (x # xs) = (case xs of [] \<Rightarrow> None | b # bs \<Rightarrow> Some b)"
  by (cases xs) auto

lemma index1_split_str:
  "sep \<in> set s \<Longrightarrow>
   index1 (split_str s sep) = Some (takeWhile (\<lambda>c. c \<noteq> sep) (tl (dropWhile (\<lambda>c. c \<noteq> sep) s)))"
proof (induction s)
  case Nil
  then show ?case by simp
next
  case (Cons c cs)
  obtain w ws where w: "split_str cs sep = w # ws"
    using split_str_not_Nil [of cs sep] by (cases "split_str cs sep") auto
  show ?case
  proof (cases "c = sep")
    case True
    have "index1 (split_str (c # cs) sep) = Some (hd (split_str cs sep))"
      using True w by simp
    then show ?thesis
      using True by (simp add: hd_split_str)
  next
    case False
    then have "sep \<in> set cs" using Cons.prems by auto
    then have ih: "index1 (w # ws) =
        Some (takeWhile (\<lambda>c. c \<noteq> sep) (tl (dropWhile (\<lambda>c. c \<noteq> sep) cs)))"
      using Cons.IH w by simp
    have "index1 (split_str (c # cs) sep) = index1 (w # ws)"
      using False w by (simp add: index1_Cons)
    then show ?thesis
      using ih False by simp
  qed
qed

lemma includes_str_member:
  "includes_str s p \<Longrightarrow> c \<in> set p \<Longrightarrow> c \<in> set s"
  by (auto simp: includes_str_iff)

lemma base64Data_segment:
  "includes_str s '';base64,'' \<Longrightarrow> base64Data s = Some (first_comma_segment s)"
  using includes_str_member [of s "'';base64,''" "CHR '',''"]
  by (simp add: base64Data_def first_comma_segment_def after_first_comma_def index1_split_str)

text \<open>
  C8. The claim: in the binding variant the substring of the image after the first comma
  is base64-decoded, and a decode failure yields the 400 decode-failure response. The code
  decodes \<^verbatim>\<open>image.split(',')[1]\<close>, which stops at the second comma: for the image
  \<^verbatim>\<open>data:image/png;base64,QUJD,!!\<close> the substring after the first comma,
  \<^verbatim>\<open>QUJD,!!\<close>, does not decode, yet the handler decodes \<^verbatim>\<open>QUJD\<close> and calls the
  model with the bytes 65, 66, 67.
\<close>

theorem text_after_second_comma_ignored_counterexample:
  "after_first_comma ''data:image/png;base64,QUJD,!!'' = ''QUJD,!!''
   \<and> atob (Some ''QUJD,!!'') =
       Inl (InvalidCharacterError ''The string to be decoded is not correctly encoded.'')
   \<and> fetch_binding cat_binding (post (sample_body ''data:image/png;base64,QUJD,!!'')) =
     \<lparr> result = Inr \<lparr> status = 200,
          headers = [(''Content-Type'', ''application/json''),
                     (''Access-Control-Allow-Origin'', ''*'')],
          body = Text (JSON_stringify (JObj [(''description'', JStr ''a cat'')])) \<rparr>,
       calls = [AI_run_call ''@cf/llava-hf/llava-1.5-7b-hf''
                 \<lparr> messages = [\<lparr> role = ''user'', content = Some (JStr ''describe''),
                                  image_data = Bytes [65, 66, 67] \<rparr>],
                   max_tokens = Some 512 \<rparr>] \<rparr>"
proof -
  have a: "after_first_comma ''data:image/png;base64,QUJD,!!'' = ''QUJD,!!''"
    by (simp add: after_first_comma_def)
  have b: "atob (Some ''QUJD,!!'') =
       Inl (InvalidCharacterError ''The string to be decoded is not correctly encoded.'')"
    by (simp add: atob_def strip_padding_def ascii_whitespace_def b64_value_def)
  have v: "validate (post (sample_body ''data:image/png;base64,QUJD,!!'')) =
       Inr (''data:image/png;base64,QUJD,!!'', Some (JStr ''describe''))"
    by (simp add: validate_def post_def sample_body_def destructure_def)
  have d: "base64Data ''data:image/png;base64,QUJD,!!'' = Some ''QUJD''"
    by (simp add: base64Data_def)
  have c: "fetch_binding cat_binding (post (sample_body ''data:image/png;base64,QUJD,!!'')) =
     \<lparr> result = Inr (json_response 200 cat),
       calls = [AI_run_call modelId (aiInput (Some (JStr ''describe'')) [65, 66, 67])] \<rparr>"
    by (simp add: fetch_binding_calls [OF v] d atob_QUJD cat_binding_def)
  show ?thesis
    using a b c
    by (simp add: json_response_def json_headers_def cat_def modelId_def aiInput_def)
qed

text \<open>
  C8, amended. In the binding variant, for every POST request that passes the format
  check, the segment of the image string between its first comma and the next comma (or
  the end of the string) is base64-decoded into raw bytes, which are what the model is
  called with; a decode failure yields status 400 with the body
  \<^verbatim>\<open>{ message: "Failed to decode base64 image data." }\<close> and no downstream call. The
  HTTPS variant decodes nothing and sends the original data URI string downstream.
\<close>

theorem binding_decodes_first_comma_segment:
  assumes "request_method request = ''POST''"
    and "json request = Inr (JObj kvs)"
    and "map_of kvs ''image'' = Some (JStr s)"
    and "truthy (map_of kvs ''prompt'')"
    and "startsWith s ''data:image/''"
    and "includes_str s '';base64,''"
  shows "(atob (Some (first_comma_segment s)) = Inl e \<longrightarrow>
            fetch_binding env request =
              \<lparr> result = Inr \<lparr> status = 400,
                   headers = [(''Content-Type'', ''application/json''),
                              (''Access-Control-Allow-Origin'', ''*'')],
                   body = Text (JSON_stringify (JObj [(''message'', JStr
                     ''Failed to decode base64 image data.'')])) \<rparr>,
                calls = [] \<rparr>)
       \<and> (atob (Some (first_comma_segment s)) = Inr bytes \<longrightarrow>
            calls (fetch_binding env request) =
              [AI_run_call ''@cf/llava-hf/llava-1.5-7b-hf''
                 \<lparr> messages = [\<lparr> role = ''user'', content = map_of kvs ''prompt'',
                                  image_data = Bytes bytes \<rparr>],
                   max_tokens = Some 512 \<rparr>])
       \<and> map (map image_data \<circ> messages \<circ> call_input) (calls (fetch_https global_fetch henv request)) =
            [[Data_URI s]]"
proof -
  have v: "validate request = Inr (s, map_of kvs ''prompt'')"
    using assms by (rule validate_passes)
  have d: "base64Data s = Some (first_comma_segment s)"
    using assms(6) by (rule base64Data_segment)
  have failure: "fetch_binding env request =
      finish (Inr (json_response 400 (message_object ''Failed to decode base64 image data.'')))"
    if "atob (Some (first_comma_segment s)) = Inl e"
    using that d fetch_binding_undecodable [OF v] by simp
  have success: "calls (fetch_binding env request) =
      [AI_run_call modelId (aiInput (map_of kvs ''prompt'') bytes)]"
    if "atob (Some (first_comma_segment s)) = Inr bytes"
    using that d fetch_binding_calls [OF v, of bytes env] by simp
  have https: "calls (fetch_https global_fetch henv request) =
      [ai_fetch_call henv (map_of kvs ''prompt'') s]"
    by (simp add: fetch_https_calls [OF v])
  show ?thesis
    using failure success https
    by (simp add: finish_def json_response_def json_headers_def message_object_def
        modelId_def aiInput_def ai_fetch_call_def aiPayload_def)
qed

theorem binding_decodes_first_comma_segment_witness:
  "fetch_binding cat_binding (post (sample_body ''data:image/png;base64,!!!!'')) =
     \<lparr> result = Inr \<lparr> status = 400,
          headers = [(''Content-Type'', ''application/json''),
                     (''Access-Control-Allow-Origin'', ''*'')],
          body = Text (JSON_stringify (JObj [(''message'', JStr
            ''Failed to decode base64 image data.'')])) \<rparr>,
       calls = [] \<rparr>
   \<and> calls (fetch_binding cat_binding (post (sample_body ''data:image/png;base64,QUJD''))) =
       [AI_run_call ''@cf/llava-hf/llava-1.5-7b-hf''
          \<lparr> messages = [\<lparr> role = ''user'', content = Some (JStr ''describe''),
                           image_data = Bytes [65, 66, 67] \<rparr>],
            max_tokens = Some 512 \<rparr>]
   \<and> map (map image_data \<circ> messages \<circ> call_input)
       (calls (fetch_https cat_endpoint account (post (sample_body ''data:image/png;base64,QUJD'')))) =
       [[Data_URI ''data:image/png;base64,QUJD'']]"
proof -
  have seg1: "first_comma_segment ''data:image/png;base64,!!!!'' = ''!!!!''"
    by (simp add: first_comma_segment_def after_first_comma_def)
  have dec1: "atob (Some ''!!!!'') =
      Inl (InvalidCharacterError ''The string to be decoded is not correctly encoded.'')"
    by (simp add: atob_def strip_padding_def ascii_whitespace_def b64_value_def)
  have seg2: "first_comma_segment ''data:image/png;base64,QUJD'' = ''QUJD''"
    by (simp add: first_comma_segment_def after_first_comma_def)
  show ?thesis
    using binding_decodes_first_comma_segment
      [where request = "post (sample_body ''data:image/png;base64,!!!!'')"
         and kvs = "[(''image'', JStr ''data:image/png;base64,!!!!''),
                     (''prompt'', JStr ''describe''), (''max_tokens'', JNum ''100'')]"
         and s = "''data:image/png;base64,!!!!''"
         and e = "InvalidCharacterError ''The string to be decoded is not correctly encoded.''"
         and env = cat_binding and global_fetch = cat_endpoint and henv = account]
      binding_decodes_first_comma_segment
      [where request = "post (sample_body ''data:image/png;base64,QUJD'')"
         and kvs = "[(''image'', JStr ''data:image/png;base64,QUJD''),
                     (''prompt'', JStr ''describe''), (''max_tokens'', JNum ''100'')]"
         and s = "''data:image/png;base64,QUJD''" and bytes = "[65, 66, 67]"
         and env = cat_binding and global_fetch = cat_endpoint and henv = account]
    by (simp add: post_def sample_body_def seg1 dec1 seg2 atob_QUJD)
qed

section \<open>Downstream failures\<close>

lemma binding_errorMessage_string: "binding_errorMessage (Thrown_value (JStr t)) = Inr t"
  by (simp add: binding_errorMessage_def)

lemma binding_errorMessage_Error:
  "binding_errorMessage (Error_object name m) =
     Inr (if m = [] then ''Unknown error from Cloudflare AI binding'' else m)"
  by (simp add: binding_errorMessage_def error_message_def or_else_def template_text_def)

lemma errorData_details_first_message:
  "map_of ekvs ''errors'' = Some (JArr (JObj entry # rest)) \<Longrightarrow>
   map_of entry ''message'' = Some (JStr em) \<Longrightarrow> em \<noteq> [] \<Longrightarrow>
   errorData_details (JObj ekvs) = Inr em"
  by (simp add: errorData_details_def or_else_def template_text_def)

lemma errorData_details_no_errors:
  "map_of ekvs ''errors'' = None \<Longrightarrow>
   errorData_details (JObj ekvs) = Inr ''Unknown error from Cloudflare AI''"
  by (simp add: errorData_details_def or_else_def template_text_def)

lemma https_error_status_passed_through:
  assumes "validate request = Inr (s, prompt)"
    and "global_fetch (ai_fetch_call henv prompt s) = Inr aiResponse"
    and "\<not> ok aiResponse"
    and "200 \<le> upstream_status aiResponse" and "upstream_status aiResponse \<le> 599"
    and "upstream_status aiResponse \<noteq> 304"
    and "upstream_json aiResponse = Inr errorData"
    and "errorData_details errorData = Inr details"
  shows "result (fetch_https global_fetch henv request) =
     Inr (json_response (upstream_status aiResponse) (message_object (''AI model error: '' @ details)))"
proof -
  have "upstream_status aiResponse \<noteq> 204" "upstream_status aiResponse \<noteq> 205"
    using assms(3) by (auto simp: ok_def)
  then have "relay aiResponse =
      Inr (json_response (upstream_status aiResponse) (message_object (''AI model error: '' @ details)))"
    using assms by (simp add: relay_def new_Response_json)
  then show ?thesis
    using assms(2) by (simp add: fetch_https_calls [OF assms(1)])
qed

lemma https_unparseable_error_body:
  assumes "validate request = Inr (s, prompt)"
    and "global_fetch (ai_fetch_call henv prompt s) = Inr aiResponse"
    and "\<not> ok aiResponse"
    and "upstream_json aiResponse = Inl (Error_object pname pm)"
  shows "result (fetch_https global_fetch henv request) =
     Inr (json_response 500
       (JObj [(''message'', JStr ''Internal server error while processing request''),
              (''error'', JStr pm)]))"
  using assms(2,3,4)
  by (simp add: fetch_https_calls [OF assms(1)] relay_def https_catch_def error_message_def
      new_Response_json del: JSON_stringify.simps)

lemma binding_failure_response:
  assumes "validate request = Inr (s, prompt)"
    and "atob (base64Data s) = Inr bytes"
    and "AI_run env modelId (aiInput prompt bytes) = Inl error"
    and "binding_errorMessage error = Inr details"
  shows "result (fetch_binding env request) =
     Inr (json_response 500 (message_object (''AI model error: '' @ details)))"
  using assms(3,4)
  by (simp add: fetch_binding_calls [OF assms(1,2)] binding_catch_def new_Response_json)

text \<open>
  C3. The claim: whenever the downstream call signals an error, the body is
  \<^verbatim>\<open>{ message: "AI model error: <details>" }\<close> and the status is 500 (binding variant) or
  the downstream's status (HTTPS variant). The HTTPS variant does so when the error body
  is JSON: a 401 with \<^verbatim>\<open>errors: [{ message: "Authentication error" }]\<close> is answered
  401 with "AI model error: Authentication error", and the binding variant answers a
  thrown error with 500 and the same message. But the HTTPS variant reads the error body with an
  unguarded \<^verbatim>\<open>aiResponse.json()\<close> inside the \<^verbatim>\<open>try\<close> block: when the endpoint
  answers 502 with a body that is no JSON, the parse error lands in the \<^verbatim>\<open>catch\<close> block, and the
  handler answers 500 with the message "Internal server error while processing request".
\<close>

theorem unparseable_error_body_answers_500:
  \<open>bad_gateway_endpoint (ai_fetch_call account (Some (JStr ''describe'')) ''data:image/png;base64,QUJD'') =
     Inr \<lparr> upstream_status = 502,
           upstream_json = Inl (Error_object ''SyntaxError'' ''Unexpected token < in JSON at position 0'') \<rparr>
   \<and> fetch_https bad_gateway_endpoint account (post (sample_body ''data:image/png;base64,QUJD'')) =
     \<lparr> result = Inr \<lparr> status = 500,
          headers = [(''Content-Type'', ''application/json''),
                     (''Access-Control-Allow-Origin'', ''*'')],
          body = Text (JSON_stringify
            (JObj [(''message'', JStr ''Internal server error while processing request''),
                   (''error'', JStr ''Unexpected token < in JSON at position 0'')])) \<rparr>,
       calls = [ai_fetch_call account (Some (JStr ''describe'')) ''data:image/png;base64,QUJD''] \<rparr>
   \<and> result (fetch_https unauthorized_endpoint account (post (sample_body ''data:image/png;base64,QUJD''))) =
     Inr \<lparr> status = 401,
           headers = [(''Content-Type'', ''application/json''),
                      (''Access-Control-Allow-Origin'', ''*'')],
           body = Text (JSON_stringify
             (JObj [(''message'', JStr ''AI model error: Authentication error'')])) \<rparr>
   \<and> result (fetch_binding failing_binding (post (sample_body ''data:image/png;base64,QUJD''))) =
     Inr \<lparr> status = 500,
           headers = [(''Content-Type'', ''application/json''),
                      (''Access-Control-Allow-Origin'', ''*'')],
           body = Text (JSON_stringify
             (JObj [(''message'', JStr ''AI model error: Authentication error'')])) \<rparr>\<close>
proof -
  have c: "result (fetch_binding failing_binding (post (sample_body ''data:image/png;base64,QUJD''))) =
     Inr (json_response 500 (message_object ''AI model error: Authentication error''))"
    using binding_failure_response [OF sample_passes, of "[65, 66, 67]" failing_binding
        "Error_object ''Error'' ''Authentication error''" "''Authentication error''"]
    by (simp add: base64Data_sample atob_QUJD failing_binding_def binding_errorMessage_Error)
  have a: "fetch_https bad_gateway_endpoint account (post (sample_body ''data:image/png;base64,QUJD'')) =
     \<lparr> result = Inr (json_response 500
          (JObj [(''message'', JStr ''Internal server error while processing request''),
                 (''error'', JStr ''Unexpected token < in JSON at position 0'')])),
       calls = [ai_fetch_call account (Some (JStr ''describe'')) ''data:image/png;base64,QUJD''] \<rparr>"
    by (simp add: fetch_https_calls [OF sample_passes] bad_gateway_endpoint_def relay_def ok_def
        https_catch_def error_message_def new_Response_json del: JSON_stringify.simps)
  have details: "errorData_details (JObj [(''success'', JBool False),
      (''errors'', JArr [JObj [(''code'', JNum ''10000''), (''message'', JStr ''Authentication error'')]])]) =
      Inr ''Authentication error''"
    by (simp add: errorData_details_def or_else_def template_text_def)
  have b: "result (fetch_https unauthorized_endpoint account (post (sample_body ''data:image/png;base64,QUJD''))) =
     Inr (json_response 401 (message_object ''AI model error: Authentication error''))"
    by (simp add: fetch_https_calls [OF sample_passes] unauthorized_endpoint_def relay_def ok_def
        details new_Response_json del: JSON_stringify.simps)
  show ?thesis
    using a b c
    by (simp add: bad_gateway_endpoint_def json_response_def json_headers_def message_object_def
        del: JSON_stringify.simps)
qed

end
